theory Spec2Isabelle
  imports Main
begin

section \<open>JavaScript values\<close>

text \<open>
  The values that flow through \<^verbatim>\<open>src/module/index.js\<close>: what \<^verbatim>\<open>JSON.parse\<close>
  returns, what the service binding holds, the caller's payload. A property that is
  absent reads as \<open>JUndefined\<close>. An object is the list of its own properties; the
  first binding of a name is the property's value. Numbers are the integers (status
  codes, JSON integers), written in decimal when converted to a string, as JavaScript
  writes an integer of magnitude below ten to the power 21 (from there on it writes an
  exponent, and the model does not follow it). A string is a
  list of \<open>char\<close>, that is of bytes: it stands for its own UTF-8 encoding, which
  for ASCII text is the text itself.
\<close>

datatype jsval =
    JUndefined
  | JNull
  | JBool bool
  | JNum int
  | JStr string
  | JArr "jsval list"
  | JObj "(string \<times> jsval) list"

text \<open>
  What a promise is rejected with, or what escapes a callback:
  the three \<^verbatim>\<open>Error(...)\<close> objects thrown by \<^verbatim>\<open>doItNow\<close>, the \<^verbatim>\<open>TypeError\<close> of a
  property read on \<^verbatim>\<open>undefined\<close> or \<^verbatim>\<open>null\<close>, the \<^verbatim>\<open>SyntaxError\<close> of
  \<^verbatim>\<open>JSON.parse\<close>, the error object handed over by the transport, and the plain
  strings of the status checks.
\<close>

datatype reason =
    UnknownHttpMethod "string option"  \<comment> \<open>\<^verbatim>\<open>Error(`Unknown HTTP method: ...`)\<close>\<close>
  | InvalidInstance                    \<comment> \<open>\<^verbatim>\<open>Error('Invalid destination service instance')\<close>\<close>
  | InvalidName                        \<comment> \<open>\<^verbatim>\<open>Error('Invalid destination name')\<close>\<close>
  | TypeError
  | SyntaxError
  | TransportError string
  | Message string

fun is_validation_error :: "reason \<Rightarrow> bool" where
  "is_validation_error (UnknownHttpMethod m) = True"
| "is_validation_error InvalidInstance = True"
| "is_validation_error InvalidName = True"
| "is_validation_error r = False"

text \<open>Truthiness, as tested by \<^verbatim>\<open>if (x)\<close>, \<^verbatim>\<open>!x\<close> and \<^verbatim>\<open>x && y\<close>.\<close>

fun truthy :: "jsval \<Rightarrow> bool" where
  "truthy JUndefined = False"
| "truthy JNull = False"
| "truthy (JBool b) = b"
| "truthy (JNum n) = (n \<noteq> 0)"
| "truthy (JStr s) = (s \<noteq> [])"
| "truthy (JArr xs) = True"
| "truthy (JObj kvs) = True"

text \<open>
  The property read \<^verbatim>\<open>x.k\<close>. It throws a \<^verbatim>\<open>TypeError\<close> on \<^verbatim>\<open>undefined\<close> and
  \<^verbatim>\<open>null\<close>. The names this program reads (\<^verbatim>\<open>credentials\<close>, \<^verbatim>\<open>url\<close>, \<^verbatim>\<open>uri\<close>,
  \<^verbatim>\<open>clientid\<close>, \<^verbatim>\<open>clientsecret\<close>, \<^verbatim>\<open>destinationConfiguration\<close>, \<^verbatim>\<open>URL\<close>,
  \<^verbatim>\<open>authTokens\<close>, \<^verbatim>\<open>type\<close>, \<^verbatim>\<open>value\<close>, \<^verbatim>\<open>access_token\<close>) are on no built-in
  prototype, so on a primitive or an array they read as \<^verbatim>\<open>undefined\<close>.
\<close>

fun getProp :: "jsval \<Rightarrow> string \<Rightarrow> reason + jsval" where
  "getProp JUndefined k = Inl TypeError"
| "getProp JNull k = Inl TypeError"
| "getProp (JObj kvs) k = Inr (case map_of kvs k of None \<Rightarrow> JUndefined | Some v \<Rightarrow> v)"
| "getProp v k = Inr JUndefined"

text \<open>The read \<^verbatim>\<open>x[0]\<close> of a truthy value (so never of \<^verbatim>\<open>undefined\<close> or \<^verbatim>\<open>null\<close>).\<close>

fun getIndex0 :: "jsval \<Rightarrow> jsval" where
  "getIndex0 (JArr []) = JUndefined"
| "getIndex0 (JArr (x # xs)) = x"
| "getIndex0 (JStr []) = JUndefined"
| "getIndex0 (JStr (c # cs)) = JStr [c]"
| "getIndex0 (JObj kvs) = (case map_of kvs ''0'' of None \<Rightarrow> JUndefined | Some v \<Rightarrow> v)"
| "getIndex0 v = JUndefined"

subsection \<open>Conversion to string, as a template literal does it\<close>

definition digit_char :: "nat \<Rightarrow> char" where
  "digit_char d = ''0123456789'' ! d"

function show_nat :: "nat \<Rightarrow> string" where
  "show_nat n = (if n < 10 then [digit_char n] else show_nat (n div 10) @ [digit_char (n mod 10)])"
  by pat_completeness auto
termination
  by (relation "measure id") auto

declare show_nat.simps [simp del]

definition show_int :: "int \<Rightarrow> string" where
  "show_int i = (if i < 0 then ''-'' @ show_nat (nat (- i)) else show_nat (nat i))"

fun ToString :: "jsval \<Rightarrow> string"
  and join_elems :: "jsval list \<Rightarrow> string" where
  "ToString JUndefined = ''undefined''"
| "ToString JNull = ''null''"
| "ToString (JBool b) = (if b then ''true'' else ''false'')"
| "ToString (JNum n) = show_int n"
| "ToString (JStr s) = s"
| "ToString (JArr xs) = join_elems xs"
| "ToString (JObj kvs) = ''[object Object]''"
| "join_elems [] = []"
| "join_elems (x # xs) =
     (case x of JUndefined \<Rightarrow> [] | JNull \<Rightarrow> [] | _ \<Rightarrow> ToString x)
     @ (if xs = [] then [] else '','' @ join_elems xs)"

subsection \<open>Base64\<close>

text \<open>
  \<^verbatim>\<open>Buffer.from(s).toString('base64')\<close>: the bytes of the string, three at a time, each
  group written as four characters of the standard alphabet, padded with \<^verbatim>\<open>=\<close>.
\<close>

definition b64_char :: "nat \<Rightarrow> char" where
  "b64_char n = ''ABCDEFGHIJKLMNOPQRSTUVWXYZabcdefghijklmnopqrstuvwxyz0123456789+/'' ! n"

fun base64_bytes :: "nat list \<Rightarrow> string" where
  "base64_bytes [] = []"
| "base64_bytes [a] =
     [b64_char (a div 4), b64_char ((a mod 4) * 16), CHR ''='', CHR ''='']"
| "base64_bytes [a, b] =
     [b64_char (a div 4), b64_char ((a mod 4) * 16 + b div 16),
      b64_char ((b mod 16) * 4), CHR ''='']"
| "base64_bytes (a # b # c # rest) =
     [b64_char (a div 4), b64_char ((a mod 4) * 16 + b div 16),
      b64_char ((b mod 16) * 4 + c div 64), b64_char (c mod 64)] @ base64_bytes rest"

definition base64 :: "string \<Rightarrow> string" where
  "base64 s = base64_bytes (map of_char s)"

section \<open>The collaborators of the module\<close>

text \<open>
  \<^verbatim>\<open>require('http-methods-enum')\<close> is not part of the repository, so the module object
  is a parameter: \<open>default_export\<close> is the value of its property \<^verbatim>\<open>default\<close>
  (\<open>None\<close> when the module has none, else the own properties of that object, name and
  value), \<open>named_exports\<close> are the other own properties of the module object itself.
\<close>

record http_methods_module =
  default_export :: "(string \<times> string) list option"
  named_exports :: "(string \<times> string) list"

text \<open>\<^verbatim>\<open>httpMethodsEnum.POST\<close> and the like: \<open>None\<close> is \<^verbatim>\<open>undefined\<close>.\<close>

definition module_prop :: "http_methods_module \<Rightarrow> string \<Rightarrow> string option" where
  "module_prop E k = map_of (named_exports E) k"

text \<open>\<^verbatim>\<open>obj.hasOwnProperty(x)\<close> for \<^verbatim>\<open>x\<close> a string or \<^verbatim>\<open>undefined\<close>: the argument is
  converted to a property key first.\<close>

definition hasOwnProperty :: "(string \<times> string) list \<Rightarrow> string option \<Rightarrow> bool" where
  "hasOwnProperty ps x =
     ((case x of None \<Rightarrow> ''undefined'' | Some s \<Rightarrow> s) \<in> set (map fst ps))"

text \<open>The options object handed to \<^verbatim>\<open>request\<close>. A field that the code does not set is
  \<open>None\<close>.\<close>

record request_options =
  r_url :: string
  r_method :: "string option"
  r_headers :: "(string \<times> string) list option"
  r_form :: "(string \<times> jsval) list option"
  r_payload :: "jsval option"

text \<open>\<^verbatim>\<open>request\<close> sends a \<^verbatim>\<open>GET\<close> when the options name no method.\<close>

definition effective_method :: "request_options \<Rightarrow> string" where
  "effective_method ro = (case r_method ro of None \<Rightarrow> ''GET'' | Some m \<Rightarrow> if m = [] then ''GET'' else m)"

text \<open>What \<^verbatim>\<open>request\<close> hands to its callback: an error, or a response with its status
  code and body.\<close>

datatype response = TransportFailure string | Response nat string

text \<open>
  The environment of one run: the enum module, the service lookup
  \<^verbatim>\<open>cfenv.getAppEnv({vcapFile: ...}).getService(name)\<close> (\<open>JNull\<close> when no service has the
  name), \<^verbatim>\<open>JSON.parse\<close> (\<open>None\<close> when it throws a \<^verbatim>\<open>SyntaxError\<close>) and the network
  behind \<^verbatim>\<open>request\<close>.
\<close>

record env =
  httpMethodsEnum :: http_methods_module
  getService :: "string \<Rightarrow> jsval"
  JSON_parse :: "string \<Rightarrow> jsval option"
  request :: "request_options \<Rightarrow> response"

text \<open>
  A promise ends resolved or rejected, or never settles: an exception thrown inside a
  callback of \<^verbatim>\<open>request\<close> is raised outside the promise's executor, so nothing turns
  it into a rejection.
\<close>

datatype 'a promise = Resolved 'a | Rejected reason | NeverSettles reason

text \<open>What a step does to the outside, in order: looking a service up, sending a request.\<close>

datatype event = GetService string | Request request_options

type_synonym 'a run = "event list \<times> 'a promise"

text \<open>\<^verbatim>\<open>p.then(f)\<close> with \<^verbatim>\<open>f\<close> returning a promise.\<close>

fun then_run :: "'a run \<Rightarrow> ('a \<Rightarrow> 'b run) \<Rightarrow> 'b run" where
  "then_run (evs, Resolved v) f = (case f v of (evs', p) \<Rightarrow> (evs @ evs', p))"
| "then_run (evs, Rejected e) f = (evs, Rejected e)"
| "then_run (evs, NeverSettles e) f = (evs, NeverSettles e)"

text \<open>Sequencing of reads that may throw.\<close>

fun bind_sum :: "'e + 'a \<Rightarrow> ('a \<Rightarrow> 'e + 'b) \<Rightarrow> 'e + 'b" where
  "bind_sum (Inl e) f = Inl e"
| "bind_sum (Inr v) f = f v"

section \<open>The module \<^verbatim>\<open>src/module/index.js\<close>\<close>

text \<open>The argument \<^verbatim>\<open>oOptions\<close> of \<^verbatim>\<open>doItNow\<close> and the argument \<^verbatim>\<open>oParameters\<close> of
  \<^verbatim>\<open>callDestination\<close>. A string field is \<open>None\<close> when it is \<^verbatim>\<open>undefined\<close>; the payload
  is any value, \<open>JUndefined\<close> when there is none.\<close>

record call_options =
  o_url :: "string option"
  o_destinationInstance :: "string option"
  o_destinationName :: "string option"
  o_httpMethod :: "string option"
  o_payload :: jsval

record parameters =
  p_url :: "string option"
  p_destination :: jsval
  p_httpMethod :: "string option"
  p_payload :: jsval

subsection \<open>\<^verbatim>\<open>isPostPutPatch\<close> (lines 89 to 91)\<close>

text \<open>
  The method is compared with \<^verbatim>\<open>httpMethodsEnum.POST\<close>, \<^verbatim>\<open>httpMethodsEnum.PUT\<close> and
  \<^verbatim>\<open>httpMethodsEnum.PATCH\<close>, properties of the module object itself. Both sides of
  each \<^verbatim>\<open>==\<close> are \<^verbatim>\<open>undefined\<close> or a string, and on such values \<^verbatim>\<open>==\<close> holds when
  both are \<^verbatim>\<open>undefined\<close> or both are the same string.
\<close>

definition isPostPutPatch :: "http_methods_module \<Rightarrow> string option \<Rightarrow> bool" where
  "isPostPutPatch E sMethod =
     (sMethod = module_prop E ''POST'' \<or> sMethod = module_prop E ''PUT''
      \<or> sMethod = module_prop E ''PATCH'')"

subsection \<open>\<^verbatim>\<open>callDestination\<close> (lines 51 to 82)\<close>

text \<open>Lines 52 to 71 build the options; a read that throws rejects the promise of the
  \<^verbatim>\<open>async\<close> function before anything is sent.\<close>

definition callDestination_options ::
  "http_methods_module \<Rightarrow> parameters \<Rightarrow> reason + request_options" where
  "callDestination_options E oParameters =
     (let oDestination = p_destination oParameters in
      bind_sum (getProp oDestination ''destinationConfiguration'') (\<lambda>cfg.
      bind_sum (getProp cfg ''URL'') (\<lambda>URL.
      bind_sum (getProp oDestination ''authTokens'') (\<lambda>authTokens.
      bind_sum
        (if truthy authTokens \<and> truthy (getIndex0 authTokens)
         then (let oToken = getIndex0 authTokens in
               bind_sum (getProp oToken ''type'') (\<lambda>ty.
               bind_sum (getProp oToken ''value'') (\<lambda>v.
                 Inr (Some [(''Authorization'', ToString ty @ '' '' @ ToString v)]))))
         else Inr None) (\<lambda>headers.
      Inr \<lparr> r_url = (case p_url oParameters of
                       None \<Rightarrow> ToString URL
                     | Some u \<Rightarrow> if u \<noteq> [] then ToString URL @ u else ToString URL),
            r_method = p_httpMethod oParameters,
            r_headers = headers,
            r_form = None,
            r_payload = (if truthy (p_payload oParameters)
                            \<and> isPostPutPatch E (p_httpMethod oParameters)
                         then Some (p_payload oParameters) else None) \<rparr>)))))"

text \<open>The callback of lines 74 to 80: the status code is not looked at.\<close>

fun callDestination_callback :: "response \<Rightarrow> string promise" where
  "callDestination_callback (TransportFailure e) = Rejected (TransportError e)"
| "callDestination_callback (Response statusCode data) = Resolved data"

definition callDestination :: "env \<Rightarrow> parameters \<Rightarrow> string run" where
  "callDestination env oParameters =
     (case callDestination_options (httpMethodsEnum env) oParameters of
        Inl e \<Rightarrow> ([], Rejected e)
      | Inr oOptions \<Rightarrow>
          ([Request oOptions], callDestination_callback (request env oOptions)))"

subsection \<open>\<^verbatim>\<open>getDestination\<close> (lines 99 to 120)\<close>

definition getDestination_options :: "jsval \<Rightarrow> jsval \<Rightarrow> string \<Rightarrow> reason + request_options" where
  "getDestination_options oDestinationService sToken sDestinationName =
     bind_sum (getProp oDestinationService ''credentials'') (\<lambda>credentials.
     bind_sum (getProp credentials ''uri'') (\<lambda>uri.
       Inr \<lparr> r_url = ToString uri @ ''/destination-configuration/v1/destinations/''
                      @ sDestinationName,
             r_method = None,
             r_headers = Some [(''Authorization'', ''Bearer '' @ ToString sToken)],
             r_form = None,
             r_payload = None \<rparr>))"

fun getDestination_callback :: "env \<Rightarrow> response \<Rightarrow> jsval promise" where
  "getDestination_callback env (TransportFailure e) = Rejected (TransportError e)"
| "getDestination_callback env (Response statusCode data) =
     (if statusCode = 200
      then (case JSON_parse env data of
              None \<Rightarrow> NeverSettles SyntaxError
            | Some v \<Rightarrow> Resolved v)
      else Rejected (Message (''Server responded with status code '' @ show_nat statusCode
             @ '' when requesting the destination from destination service'')))"

definition getDestination :: "env \<Rightarrow> jsval \<Rightarrow> string \<Rightarrow> string \<Rightarrow> jsval run" where
  "getDestination env sToken sDestinationInstance sDestinationName =
     (case getDestination_options (getService env sDestinationInstance) sToken
             sDestinationName of
        Inl e \<Rightarrow> ([GetService sDestinationInstance], Rejected e)
      | Inr oOptions \<Rightarrow>
          ([GetService sDestinationInstance, Request oOptions],
           getDestination_callback env (request env oOptions)))"

subsection \<open>\<^verbatim>\<open>getToken\<close> (lines 127 to 156)\<close>

definition getToken_options :: "jsval \<Rightarrow> reason + request_options" where
  "getToken_options oDestinationService =
     bind_sum (getProp oDestinationService ''credentials'') (\<lambda>credentials.
     bind_sum (getProp credentials ''clientid'') (\<lambda>clientid.
     bind_sum (getProp credentials ''clientsecret'') (\<lambda>clientsecret.
     bind_sum (getProp credentials ''url'') (\<lambda>url.
       (let sCredentials = ToString clientid @ '':'' @ ToString clientsecret in
        Inr \<lparr> r_url = ToString url @ ''/oauth/token'',
              r_method = Some ''POST'',
              r_headers = Some [(''Authorization'', ''Basic '' @ base64 sCredentials),
                                (''Content-type'', ''application/x-www-form-urlencoded'')],
              r_form = Some [(''client_id'', clientid),
                             (''grant_type'', JStr ''client_credentials'')],
              r_payload = None \<rparr>)))))"

fun getToken_callback :: "env \<Rightarrow> response \<Rightarrow> jsval promise" where
  "getToken_callback env (TransportFailure e) = Rejected (TransportError e)"
| "getToken_callback env (Response statusCode data) =
     (if statusCode = 200
      then (case JSON_parse env data of
              None \<Rightarrow> NeverSettles SyntaxError
            | Some v \<Rightarrow>
                (case getProp v ''access_token'' of
                   Inl e \<Rightarrow> NeverSettles e
                 | Inr sToken \<Rightarrow> Resolved sToken))
      else Rejected (Message (''Server responded with status code '' @ show_nat statusCode
             @ '' when requesting the JWT token'')))"

definition getToken :: "env \<Rightarrow> string \<Rightarrow> jsval run" where
  "getToken env sDestinationInstance =
     (case getToken_options (getService env sDestinationInstance) of
        Inl e \<Rightarrow> ([GetService sDestinationInstance], Rejected e)
      | Inr oOptions \<Rightarrow>
          ([GetService sDestinationInstance, Request oOptions],
           getToken_callback env (request env oOptions)))"

subsection \<open>\<^verbatim>\<open>doItNow\<close> (lines 14 to 40)\<close>

text \<open>
  \<^verbatim>\<open>doItNow\<close> is an \<^verbatim>\<open>async\<close> function: each \<^verbatim>\<open>throw\<close> of lines 15 to 25 runs before
  anything else and ends the call with a rejected promise. Line 15 reads
  \<^verbatim>\<open>httpMethodsEnum.default\<close>; where the module has no such property the call of
  \<^verbatim>\<open>hasOwnProperty\<close> on \<^verbatim>\<open>undefined\<close> throws a \<^verbatim>\<open>TypeError\<close>. \<^verbatim>\<open>!x\<close> holds of a string
  argument when it is \<^verbatim>\<open>undefined\<close> or empty.
\<close>

definition doItNow :: "env \<Rightarrow> call_options \<Rightarrow> string run" where
  "doItNow env oOptions =
     (case default_export (httpMethodsEnum env) of
        None \<Rightarrow> ([], Rejected TypeError)
      | Some members \<Rightarrow>
          if \<not> hasOwnProperty members (o_httpMethod oOptions)
          then ([], Rejected (UnknownHttpMethod (o_httpMethod oOptions)))
          else (case o_destinationInstance oOptions of
                  None \<Rightarrow> ([], Rejected InvalidInstance)
                | Some inst \<Rightarrow>
                    if inst = [] then ([], Rejected InvalidInstance)
                    else (case o_destinationName oOptions of
                            None \<Rightarrow> ([], Rejected InvalidName)
                          | Some name \<Rightarrow>
                              if name = [] then ([], Rejected InvalidName)
                              else then_run (getToken env inst) (\<lambda>sToken.
                                   then_run (getDestination env sToken inst name) (\<lambda>oDestination.
                                   callDestination env
                                     \<lparr> p_url = o_url oOptions,
                                       p_destination = oDestination,
                                       p_httpMethod = o_httpMethod oOptions,
                                       p_payload = o_payload oOptions \<rparr>)))))"

section \<open>A concrete run\<close>

text \<open>
  The values used to run the definitions: the enum of the package
  \<^verbatim>\<open>http-methods-enum\<close>, which has nine members (the seven methods of the
  documentation comment of \<^verbatim>\<open>doItNow\<close>, and \<^verbatim>\<open>TRACE\<close> and \<^verbatim>\<open>CONNECT\<close>), exported as
  the module's \<^verbatim>\<open>default\<close> (the property line 15 reads); one bound service \<^verbatim>\<open>inst\<close>; the destination of the example
  in the specification; a network that answers the token request and the destination
  request with 200 and any other request with 500; and \<^verbatim>\<open>JSON.parse\<close> on the two bodies
  that network sends.
\<close>

definition example_enum :: "(string \<times> string) list" where
  "example_enum =
     [(''GET'', ''GET''), (''POST'', ''POST''), (''PUT'', ''PUT''), (''PATCH'', ''PATCH''),
      (''DELETE'', ''DELETE''), (''HEAD'', ''HEAD''), (''OPTIONS'', ''OPTIONS''),
      (''TRACE'', ''TRACE''), (''CONNECT'', ''CONNECT'')]"

definition example_module :: http_methods_module where
  "example_module = \<lparr> default_export = Some example_enum, named_exports = [] \<rparr>"

definition example_service :: jsval where
  "example_service =
     JObj [(''credentials'',
            JObj [(''clientid'', JStr ''user''), (''clientsecret'', JStr ''pass''),
                  (''url'', JStr ''https://auth.example.com''),
                  (''uri'', JStr ''https://dest.example.com'')])]"

definition example_destination :: jsval where
  "example_destination =
     JObj [(''destinationConfiguration'', JObj [(''URL'', JStr ''https://api.example.com'')]),
           (''authTokens'', JArr [JObj [(''type'', JStr ''Bearer''), (''value'', JStr ''abc'')]])]"

definition token_body :: string where
  \<open>token_body = ''{ "access_token": "tok123" }''\<close>

definition destination_body :: string where
  \<open>destination_body = ''{"destinationConfiguration":{"URL":"https://api.example.com"},"authTokens":[{"type":"Bearer","value":"abc"}]}''\<close>

definition example_parse :: "string \<Rightarrow> jsval option" where
  "example_parse s =
     (if s = token_body then Some (JObj [(''access_token'', JStr ''tok123'')])
      else if s = destination_body then Some example_destination
      else None)"

definition example_network :: "request_options \<Rightarrow> response" where
  "example_network ro =
     (if r_url ro = ''https://auth.example.com/oauth/token'' then Response 200 token_body
      else if r_url ro = ''https://dest.example.com/destination-configuration/v1/destinations/d1''
      then Response 200 destination_body
      else Response 500 ''Internal Server Error'')"

definition example_env :: env where
  "example_env =
     \<lparr> httpMethodsEnum = example_module,
       getService = (\<lambda>name. if name = ''inst'' then example_service else JNull),
       JSON_parse = example_parse,
       request = example_network \<rparr>"

text \<open>The same environment with a token endpoint that refuses the client, and with one
  that answers 200 with a page of HTML.\<close>

definition unauthorized_env :: env where
  "unauthorized_env = example_env \<lparr> request := (\<lambda>ro. Response 401 ''Unauthorized'') \<rparr>"

definition html_env :: env where
  "html_env = example_env \<lparr> request := (\<lambda>ro. Response 200 ''<html></html>'') \<rparr>"

definition example_parameters :: "string \<Rightarrow> parameters" where
  "example_parameters m =
     \<lparr> p_url = Some ''/v1/items'', p_destination = example_destination,
       p_httpMethod = Some m, p_payload = JObj [(''a'', JNum 1)] \<rparr>"

section \<open>Reads that succeed\<close>

lemma getProp_truthy:
  "truthy x \<Longrightarrow>
     getProp x k =
       Inr (case x of
              JObj kvs \<Rightarrow> (case map_of kvs k of None \<Rightarrow> JUndefined | Some v \<Rightarrow> v)
            | _ \<Rightarrow> JUndefined)"
  by (cases x) auto

lemma bind_sum_Inr: "(bind_sum x f = Inr y) = (\<exists>v. x = Inr v \<and> f v = Inr y)"
  by (cases x) auto

section \<open>The predicate \<^verbatim>\<open>isPostPutPatch\<close>\<close>

text \<open>What the predicate computes depends on the properties \<^verbatim>\<open>POST\<close>, \<^verbatim>\<open>PUT\<close> and
  \<^verbatim>\<open>PATCH\<close> of the module object. Where the module object has no properties but
  \<^verbatim>\<open>default\<close>, all three are \<^verbatim>\<open>undefined\<close> and the predicate holds of \<^verbatim>\<open>undefined\<close>
  only; where it has the three names as properties, the predicate is the documented
  one.\<close>

lemma isPostPutPatch_default_only:
  "named_exports E = [] \<Longrightarrow> isPostPutPatch E sMethod = (sMethod = None)"
  by (auto simp: isPostPutPatch_def module_prop_def)

lemma isPostPutPatch_named:
  assumes "module_prop E ''POST'' = Some ''POST''"
    and "module_prop E ''PUT'' = Some ''PUT''"
    and "module_prop E ''PATCH'' = Some ''PATCH''"
  shows "isPostPutPatch E (Some m) = (m \<in> {''POST'', ''PUT'', ''PATCH''})"
  using assms by (auto simp: isPostPutPatch_def)

text \<open>The payload follows the predicate: on a module object with no property but
  \<^verbatim>\<open>default\<close> no method string gets its payload attached; on a module object with the
  three names as properties, \<^verbatim>\<open>POST\<close>, \<^verbatim>\<open>PUT\<close> and \<^verbatim>\<open>PATCH\<close> do.\<close>

lemma payload_dropped_default_only:
  assumes "named_exports E = []"
    and "p_httpMethod oParameters = Some m"
    and "callDestination_options E oParameters = Inr oOptions"
  shows "r_payload oOptions = None"
proof -
  from assms(1,2) have "\<not> isPostPutPatch E (p_httpMethod oParameters)"
    by (simp add: isPostPutPatch_default_only)
  with assms(3) show ?thesis
    by (auto simp: callDestination_options_def Let_def bind_sum_Inr)
qed

lemma payload_attached_named:
  assumes "module_prop E ''POST'' = Some ''POST''"
    and "module_prop E ''PUT'' = Some ''PUT''"
    and "module_prop E ''PATCH'' = Some ''PATCH''"
    and "p_httpMethod oParameters = Some m"
    and "m \<in> {''POST'', ''PUT'', ''PATCH''}"
    and "truthy (p_payload oParameters)"
    and "callDestination_options E oParameters = Inr oOptions"
  shows "r_payload oOptions = Some (p_payload oParameters)"
proof -
  from assms(1-5) have "isPostPutPatch E (p_httpMethod oParameters)"
    by (simp add: isPostPutPatch_named)
  with assms(6,7) show ?thesis
    by (auto simp: callDestination_options_def Let_def bind_sum_Inr)
qed

text \<open>
  Claim C1. For a method \<^verbatim>\<open>POST\<close>, \<^verbatim>\<open>PUT\<close> or \<^verbatim>\<open>PATCH\<close> and a payload, the payload is
  to be attached to the outgoing request, \<^verbatim>\<open>isPostPutPatch\<close> being true of exactly these
  three methods. On the module whose enum is its \<^verbatim>\<open>default\<close> export, the one line 15
  reads, the code does not do so: \<^verbatim>\<open>isPostPutPatch('POST')\<close> is false, the request
  built by \<^verbatim>\<open>callDestination\<close> for a \<^verbatim>\<open>POST\<close> with the payload \<^verbatim>\<open>{a: 1}\<close> carries no
  payload, and neither does the third request of the run of \<^verbatim>\<open>doItNow\<close> with that
  method and payload.
\<close>

theorem C1_post_payload_dropped:
  "\<not> isPostPutPatch example_module (Some ''POST'')
   \<and> callDestination example_env (example_parameters ''POST'') =
     ([Request \<lparr> r_url = ''https://api.example.com/v1/items'', r_method = Some ''POST'',
                 r_headers = Some [(''Authorization'', ''Bearer abc'')], r_form = None,
                 r_payload = None \<rparr>],
      Resolved ''Internal Server Error'')
   \<and> doItNow example_env
       \<lparr> o_url = Some ''/v1/items'', o_destinationInstance = Some ''inst'',
         o_destinationName = Some ''d1'', o_httpMethod = Some ''POST'',
         o_payload = JObj [(''a'', JNum 1)] \<rparr> =
     ([GetService ''inst'',
       Request \<lparr> r_url = ''https://auth.example.com/oauth/token'', r_method = Some ''POST'',
           r_headers = Some [(''Authorization'', ''Basic dXNlcjpwYXNz''),
                             (''Content-type'', ''application/x-www-form-urlencoded'')],
           r_form = Some [(''client_id'', JStr ''user''),
                          (''grant_type'', JStr ''client_credentials'')],
           r_payload = None \<rparr>,
       GetService ''inst'',
       Request \<lparr> r_url = ''https://dest.example.com/destination-configuration/v1/destinations/d1'',
           r_method = None,
           r_headers = Some [(''Authorization'', ''Bearer tok123'')],
           r_form = None, r_payload = None \<rparr>,
       Request \<lparr> r_url = ''https://api.example.com/v1/items'', r_method = Some ''POST'',
           r_headers = Some [(''Authorization'', ''Bearer abc'')], r_form = None,
           r_payload = None \<rparr>],
      Resolved ''Internal Server Error'')"
  by (simp add: doItNow_def hasOwnProperty_def getToken_def getToken_options_def
      getDestination_def getDestination_options_def callDestination_def
      callDestination_options_def isPostPutPatch_def module_prop_def base64_def b64_char_def
      example_env_def example_module_def example_enum_def example_service_def
      example_destination_def example_network_def example_parse_def token_body_def
      destination_body_def example_parameters_def)

section \<open>Validation in \<^verbatim>\<open>doItNow\<close>\<close>

text \<open>A chain that has begun has left a trace: \<^verbatim>\<open>getToken\<close> looks the service up before
  anything else, and \<^verbatim>\<open>then\<close> keeps the events of the promise it continues.\<close>

lemma getToken_events: "fst (getToken env sDestinationInstance) \<noteq> []"
  by (simp add: getToken_def split: sum.splits)

lemma then_run_events: "fst r \<noteq> [] \<Longrightarrow> fst (then_run r f) \<noteq> []"
  by (cases r; cases "snd r") (auto split: prod.splits)

text \<open>
  Claim C2, as the code has it. The method check of line 15 asks whether the method names
  a member of the enum that the package exports as \<^verbatim>\<open>default\<close>, whatever its members
  are. A call of \<^verbatim>\<open>doItNow\<close> ends with one of the three validation errors, nothing
  having been looked up or sent (the list of events is empty), exactly when the method
  names no member of that enum, or the instance name is \<^verbatim>\<open>undefined\<close> or empty, or the
  destination name is \<^verbatim>\<open>undefined\<close> or empty.
\<close>

theorem C2_validation_before_network:
  assumes "default_export (httpMethodsEnum env) = Some members"
  shows "(\<exists>e. doItNow env oOptions = ([], Rejected e) \<and> is_validation_error e)
     \<longleftrightarrow> (\<not> hasOwnProperty members (o_httpMethod oOptions)
          \<or> o_destinationInstance oOptions \<in> {None, Some []}
          \<or> o_destinationName oOptions \<in> {None, Some []})"
proof
  assume "\<not> hasOwnProperty members (o_httpMethod oOptions)
      \<or> o_destinationInstance oOptions \<in> {None, Some []}
      \<or> o_destinationName oOptions \<in> {None, Some []}"
  with assms show "\<exists>e. doItNow env oOptions = ([], Rejected e) \<and> is_validation_error e"
    by (auto simp: doItNow_def split: option.splits)
next
  assume failed: "\<exists>e. doItNow env oOptions = ([], Rejected e) \<and> is_validation_error e"
  show "\<not> hasOwnProperty members (o_httpMethod oOptions)
      \<or> o_destinationInstance oOptions \<in> {None, Some []}
      \<or> o_destinationName oOptions \<in> {None, Some []}"
  proof (rule ccontr)
    assume "\<not> (\<not> hasOwnProperty members (o_httpMethod oOptions)
      \<or> o_destinationInstance oOptions \<in> {None, Some []}
      \<or> o_destinationName oOptions \<in> {None, Some []})"
    then obtain inst name
      where ok: "hasOwnProperty members (o_httpMethod oOptions)"
        and inst: "o_destinationInstance oOptions = Some inst" "inst \<noteq> []"
        and name: "o_destinationName oOptions = Some name" "name \<noteq> []"
      by (cases "o_destinationInstance oOptions"; cases "o_destinationName oOptions") auto
    with assms have "fst (doItNow env oOptions) \<noteq> []"
      by (simp add: doItNow_def then_run_events getToken_events)
    with failed show False by auto
  qed
qed

theorem C2_validation_witness:
  "default_export (httpMethodsEnum example_env) = Some example_enum
   \<and> \<not> hasOwnProperty example_enum (Some ''FETCH'')
   \<and> (\<exists>e. doItNow example_env
              \<lparr> o_url = None, o_destinationInstance = Some ''inst'',
                o_destinationName = Some ''d1'', o_httpMethod = Some ''FETCH'',
                o_payload = JUndefined \<rparr> = ([], Rejected e)
           \<and> is_validation_error e)"
  using C2_validation_before_network [of example_env example_enum
      "\<lparr> o_url = None, o_destinationInstance = Some ''inst'',
         o_destinationName = Some ''d1'', o_httpMethod = Some ''FETCH'',
         o_payload = JUndefined \<rparr>"]
  by (simp add: example_env_def example_module_def example_enum_def hasOwnProperty_def)

text \<open>
  Claim C2, as it is written, names seven methods. \<^verbatim>\<open>TRACE\<close> is none of the seven and is
  a member of the enum: the call passes the three checks, looks the service up and sends
  its three requests.
\<close>

theorem C2_trace_counterexample:
  "doItNow example_env
     \<lparr> o_url = Some ''/v1/items'', o_destinationInstance = Some ''inst'',
       o_destinationName = Some ''d1'', o_httpMethod = Some ''TRACE'',
       o_payload = JUndefined \<rparr> =
   ([GetService ''inst'',
     Request \<lparr> r_url = ''https://auth.example.com/oauth/token'', r_method = Some ''POST'',
         r_headers = Some [(''Authorization'', ''Basic dXNlcjpwYXNz''),
                           (''Content-type'', ''application/x-www-form-urlencoded'')],
         r_form = Some [(''client_id'', JStr ''user''),
                        (''grant_type'', JStr ''client_credentials'')],
         r_payload = None \<rparr>,
     GetService ''inst'',
     Request \<lparr> r_url = ''https://dest.example.com/destination-configuration/v1/destinations/d1'',
         r_method = None,
         r_headers = Some [(''Authorization'', ''Bearer tok123'')],
         r_form = None, r_payload = None \<rparr>,
     Request \<lparr> r_url = ''https://api.example.com/v1/items'', r_method = Some ''TRACE'',
         r_headers = Some [(''Authorization'', ''Bearer abc'')], r_form = None,
         r_payload = None \<rparr>],
    Resolved ''Internal Server Error'')"
  by (simp add: doItNow_def hasOwnProperty_def getToken_def getToken_options_def
      getDestination_def getDestination_options_def callDestination_def
      callDestination_options_def isPostPutPatch_def module_prop_def base64_def b64_char_def
      example_env_def example_module_def example_enum_def example_service_def
      example_destination_def example_network_def example_parse_def token_body_def
      destination_body_def)

section \<open>The status code\<close>

text \<open>
  Claim C3. Whatever the status code of the response to the proxied call,
  \<^verbatim>\<open>callDestination\<close> resolves with the body as it came; the callbacks of \<^verbatim>\<open>getToken\<close>
  and \<^verbatim>\<open>getDestination\<close> reject a response whose status is not 200.
\<close>

theorem C3_any_status_resolves:
  assumes "callDestination_options (httpMethodsEnum env) oParameters = Inr oOptions"
    and "request env oOptions = Response statusCode data"
  shows "callDestination env oParameters = ([Request oOptions], Resolved data)
     \<and> (statusCode \<noteq> 200 \<longrightarrow>
          (\<exists>m. getToken_callback env (Response statusCode data) = Rejected (Message m))
        \<and> (\<exists>m. getDestination_callback env (Response statusCode data) = Rejected (Message m)))"
  using assms by (simp add: callDestination_def)

lemma example_call_options:
  "callDestination_options (httpMethodsEnum example_env) (example_parameters ''GET'') =
     Inr \<lparr> r_url = ''https://api.example.com/v1/items'', r_method = Some ''GET'',
           r_headers = Some [(''Authorization'', ''Bearer abc'')], r_form = None,
           r_payload = None \<rparr>"
  by (simp add: callDestination_options_def example_env_def example_parameters_def
      example_destination_def isPostPutPatch_def module_prop_def example_module_def)

theorem C3_status_500_witness:
  "callDestination example_env (example_parameters ''GET'') =
     ([Request \<lparr> r_url = ''https://api.example.com/v1/items'', r_method = Some ''GET'',
                 r_headers = Some [(''Authorization'', ''Bearer abc'')], r_form = None,
                 r_payload = None \<rparr>],
      Resolved ''Internal Server Error'')
   \<and> (\<exists>m. getToken_callback example_env (Response 500 ''Internal Server Error'')
            = Rejected (Message m))
   \<and> (\<exists>m. getDestination_callback example_env (Response 500 ''Internal Server Error'')
            = Rejected (Message m))"
  using C3_any_status_resolves [OF example_call_options,
      where statusCode = 500 and data = "''Internal Server Error''"]
  by (simp add: example_env_def example_network_def)

lemma example_token_options:
  "getToken_options (getService example_env ''inst'') =
     Inr \<lparr> r_url = ''https://auth.example.com/oauth/token'', r_method = Some ''POST'',
           r_headers = Some [(''Authorization'', ''Basic dXNlcjpwYXNz''),
                             (''Content-type'', ''application/x-www-form-urlencoded'')],
           r_form = Some [(''client_id'', JStr ''user''),
                          (''grant_type'', JStr ''client_credentials'')],
           r_payload = None \<rparr>"
  by (simp add: getToken_options_def example_env_def example_service_def base64_def
      b64_char_def)

text \<open>
  Claim C4. When the token endpoint answers 200 with a body that parses to an object
  with a property \<^verbatim>\<open>access_token\<close>, \<^verbatim>\<open>getToken\<close> resolves with the value of that
  property.
\<close>

theorem C4_token_is_access_token:
  assumes "getToken_options (getService env sDestinationInstance) = Inr oOptions"
    and "request env oOptions = Response 200 data"
    and "JSON_parse env data = Some (JObj props)"
    and "map_of props ''access_token'' = Some sToken"
  shows "getToken env sDestinationInstance =
           ([GetService sDestinationInstance, Request oOptions], Resolved sToken)"
  using assms by (simp add: getToken_def)

theorem C4_tok123_witness:
  "JSON_parse example_env token_body = Some (JObj [(''access_token'', JStr ''tok123'')])
   \<and> getToken example_env ''inst'' =
     ([GetService ''inst'',
       Request \<lparr> r_url = ''https://auth.example.com/oauth/token'', r_method = Some ''POST'',
           r_headers = Some [(''Authorization'', ''Basic dXNlcjpwYXNz''),
                             (''Content-type'', ''application/x-www-form-urlencoded'')],
           r_form = Some [(''client_id'', JStr ''user''),
                          (''grant_type'', JStr ''client_credentials'')],
           r_payload = None \<rparr>],
      Resolved (JStr ''tok123''))"
  using C4_token_is_access_token [OF example_token_options,
      where data = token_body and props = "[(''access_token'', JStr ''tok123'')]"
        and sToken = "JStr ''tok123''"]
  by (simp add: example_env_def example_network_def example_parse_def)

text \<open>
  Claim C5. When the token endpoint or the destination endpoint answers with a status
  other than 200, \<^verbatim>\<open>getToken\<close> and \<^verbatim>\<open>getDestination\<close> reject with a string that contains
  the status code in decimal, and the body is not parsed: the outcome is the same
  whatever \<^verbatim>\<open>JSON.parse\<close> would do.
\<close>

theorem C5_status_named_body_unparsed:
  assumes "statusCode \<noteq> 200"
    and "request env oOptions = Response statusCode data"
  shows "(getToken_options (getService env sDestinationInstance) = Inr oOptions \<longrightarrow>
            getToken (env \<lparr> JSON_parse := parse \<rparr>) sDestinationInstance =
              ([GetService sDestinationInstance, Request oOptions],
               Rejected (Message (''Server responded with status code ''
                  @ show_nat statusCode @ '' when requesting the JWT token''))))
       \<and> (getDestination_options (getService env sDestinationInstance) sToken
              sDestinationName = Inr oOptions \<longrightarrow>
            getDestination (env \<lparr> JSON_parse := parse \<rparr>) sToken sDestinationInstance
                sDestinationName =
              ([GetService sDestinationInstance, Request oOptions],
               Rejected (Message (''Server responded with status code ''
                  @ show_nat statusCode
                  @ '' when requesting the destination from destination service''))))"
  using assms by (simp add: getToken_def getDestination_def)

theorem C5_status_401_witness:
  "getToken unauthorized_env ''inst'' =
     ([GetService ''inst'',
       Request \<lparr> r_url = ''https://auth.example.com/oauth/token'', r_method = Some ''POST'',
           r_headers = Some [(''Authorization'', ''Basic dXNlcjpwYXNz''),
                             (''Content-type'', ''application/x-www-form-urlencoded'')],
           r_form = Some [(''client_id'', JStr ''user''),
                          (''grant_type'', JStr ''client_credentials'')],
           r_payload = None \<rparr>],
      Rejected (Message ''Server responded with status code 401 when requesting the JWT token''))"
proof -
  have ne: "(401::nat) \<noteq> 200" by simp
  have resp: "request unauthorized_env oOptions = Response 401 ''Unauthorized''" for oOptions
    by (simp add: unauthorized_env_def)
  have upd: "unauthorized_env \<lparr> JSON_parse := example_parse \<rparr> = unauthorized_env"
    by (simp add: unauthorized_env_def example_env_def)
  have svc: "getService unauthorized_env = getService example_env"
    by (simp add: unauthorized_env_def)
  have n: "show_nat 401 = ''401''"
    by (simp add: show_nat.simps digit_char_def)
  from C5_status_named_body_unparsed [OF ne resp,
      where sDestinationInstance = "''inst''" and parse = example_parse]
  show ?thesis
    by (simp add: upd svc example_token_options n)
qed

section \<open>The three requests\<close>

text \<open>
  Claim C6. For a destination whose \<^verbatim>\<open>destinationConfiguration.URL\<close> is a string,
  \<^verbatim>\<open>callDestination\<close> sends one request, with the caller's method, to the URL followed by
  the caller's path (the URL alone when there is no path); and when the first entry of
  \<^verbatim>\<open>authTokens\<close> is an object with strings \<^verbatim>\<open>type\<close> and \<^verbatim>\<open>value\<close>, the only header is
  \<^verbatim>\<open>Authorization\<close> with the type, a space and the value.
\<close>

theorem C6_url_and_authorization:
  assumes "p_destination oParameters = JObj dest"
    and "map_of dest ''destinationConfiguration'' = Some (JObj cfg)"
    and "map_of cfg ''URL'' = Some (JStr URL)"
  shows "\<exists>oOptions.
           callDestination env oParameters =
             ([Request oOptions], callDestination_callback (request env oOptions))
         \<and> r_method oOptions = p_httpMethod oParameters
         \<and> r_url oOptions = URL @ (case p_url oParameters of None \<Rightarrow> [] | Some u \<Rightarrow> u)
         \<and> (\<forall>oToken rest ty v.
               map_of dest ''authTokens'' = Some (JArr (JObj oToken # rest))
               \<and> map_of oToken ''type'' = Some (JStr ty)
               \<and> map_of oToken ''value'' = Some (JStr v)
               \<longrightarrow> r_headers oOptions = Some [(''Authorization'', ty @ '' '' @ v)])"
  using assms
  by (cases "map_of dest ''authTokens''")
     (auto simp: callDestination_def callDestination_options_def Let_def getProp_truthy
        split: option.splits)

theorem C6_bearer_abc_witness:
  "\<exists>oOptions.
     callDestination example_env (example_parameters ''GET'') =
       ([Request oOptions], callDestination_callback (request example_env oOptions))
     \<and> r_method oOptions = Some ''GET''
     \<and> r_url oOptions = ''https://api.example.com/v1/items''
     \<and> r_headers oOptions = Some [(''Authorization'', ''Bearer abc'')]"
  using C6_url_and_authorization [of "example_parameters ''GET''"
      "[(''destinationConfiguration'', JObj [(''URL'', JStr ''https://api.example.com'')]),
        (''authTokens'', JArr [JObj [(''type'', JStr ''Bearer''), (''value'', JStr ''abc'')]])]"
      "[(''URL'', JStr ''https://api.example.com'')]" "''https://api.example.com''" example_env]
  by (simp add: example_parameters_def example_destination_def)

text \<open>
  Claim C7. For an instance name bound to a service whose credentials hold the strings
  \<^verbatim>\<open>url\<close>, \<^verbatim>\<open>clientid\<close> and \<^verbatim>\<open>clientsecret\<close>, \<^verbatim>\<open>getToken\<close> looks the service up and sends
  one request: a \<^verbatim>\<open>POST\<close> to the url followed by \<^verbatim>\<open>/oauth/token\<close>, with the header
  \<^verbatim>\<open>Authorization\<close> made of \<^verbatim>\<open>Basic\<close>, a space and the base64 encoding of the client id, a
  colon and the client secret, the header \<^verbatim>\<open>Content-type\<close> of a form, and the form
  fields \<^verbatim>\<open>client_id\<close> (the client id) and \<^verbatim>\<open>grant_type\<close> (\<^verbatim>\<open>client_credentials\<close>).
\<close>

theorem C7_token_request:
  assumes "getService env sDestinationInstance = JObj service"
    and "map_of service ''credentials'' = Some (JObj credentials)"
    and "map_of credentials ''url'' = Some (JStr url)"
    and "map_of credentials ''clientid'' = Some (JStr clientid)"
    and "map_of credentials ''clientsecret'' = Some (JStr clientsecret)"
    and "oOptions = \<lparr> r_url = url @ ''/oauth/token'',
                      r_method = Some ''POST'',
                      r_headers = Some [(''Authorization'',
                                         ''Basic '' @ base64 (clientid @ '':'' @ clientsecret)),
                                        (''Content-type'', ''application/x-www-form-urlencoded'')],
                      r_form = Some [(''client_id'', JStr clientid),
                                     (''grant_type'', JStr ''client_credentials'')],
                      r_payload = None \<rparr>"
  shows "getToken env sDestinationInstance =
           ([GetService sDestinationInstance, Request oOptions],
            getToken_callback env (request env oOptions))"
  using assms by (simp add: getToken_def getToken_options_def)

theorem C7_token_request_witness:
  "base64 ''user:pass'' = ''dXNlcjpwYXNz''
   \<and> getToken example_env ''inst'' =
     ([GetService ''inst'',
       Request \<lparr> r_url = ''https://auth.example.com/oauth/token'', r_method = Some ''POST'',
           r_headers = Some [(''Authorization'', ''Basic dXNlcjpwYXNz''),
                             (''Content-type'', ''application/x-www-form-urlencoded'')],
           r_form = Some [(''client_id'', JStr ''user''),
                          (''grant_type'', JStr ''client_credentials'')],
           r_payload = None \<rparr>],
      Resolved (JStr ''tok123''))"
proof -
  have b: "base64 ''user:pass'' = ''dXNlcjpwYXNz''"
    by (simp add: base64_def b64_char_def)
  from C7_token_request [of example_env "''inst''"
      "[(''credentials'',
            JObj [(''clientid'', JStr ''user''), (''clientsecret'', JStr ''pass''),
                  (''url'', JStr ''https://auth.example.com''),
                  (''uri'', JStr ''https://dest.example.com'')])]"
      "[(''clientid'', JStr ''user''), (''clientsecret'', JStr ''pass''),
                  (''url'', JStr ''https://auth.example.com''),
                  (''uri'', JStr ''https://dest.example.com'')]"
      "''https://auth.example.com''" "''user''" "''pass''", OF _ _ _ _ _ refl]
  show ?thesis
    by (simp add: b example_env_def example_service_def example_network_def example_parse_def)
qed

text \<open>
  Claim C8. \<^verbatim>\<open>getDestination\<close> looks the service up itself (the lookup is the first of
  its own events), then sends one request without a method, which \<^verbatim>\<open>request\<close> sends as a
  \<^verbatim>\<open>GET\<close>, to the \<^verbatim>\<open>uri\<close> of the credentials followed by
  \<^verbatim>\<open>/destination-configuration/v1/destinations/\<close> and the destination name, with the
  header \<^verbatim>\<open>Authorization\<close> made of \<^verbatim>\<open>Bearer\<close>, a space and the token; on a response 200
  whose body parses it resolves with the parsed value.
\<close>

theorem C8_destination_request:
  assumes "getService env sDestinationInstance = JObj service"
    and "map_of service ''credentials'' = Some (JObj credentials)"
    and "map_of credentials ''uri'' = Some (JStr uri)"
    and "oOptions = \<lparr> r_url = uri @ ''/destination-configuration/v1/destinations/''
                              @ sDestinationName,
                      r_method = None,
                      r_headers = Some [(''Authorization'', ''Bearer '' @ ToString sToken)],
                      r_form = None,
                      r_payload = None \<rparr>"
  shows "\<exists>outcome.
           getDestination env sToken sDestinationInstance sDestinationName =
             ([GetService sDestinationInstance, Request oOptions], outcome)
         \<and> effective_method oOptions = ''GET''
         \<and> (\<forall>data v. request env oOptions = Response 200 data \<and> JSON_parse env data = Some v
               \<longrightarrow> outcome = Resolved v)"
  using assms by (auto simp: getDestination_def getDestination_options_def effective_method_def)

theorem C8_destination_request_witness:
  "getDestination example_env (JStr ''tok123'') ''inst'' ''d1'' =
     ([GetService ''inst'',
       Request \<lparr> r_url = ''https://dest.example.com/destination-configuration/v1/destinations/d1'',
                 r_method = None,
                 r_headers = Some [(''Authorization'', ''Bearer tok123'')],
                 r_form = None, r_payload = None \<rparr>],
      Resolved example_destination)"
  using C8_destination_request [of example_env "''inst''"
      "[(''credentials'',
            JObj [(''clientid'', JStr ''user''), (''clientsecret'', JStr ''pass''),
                  (''url'', JStr ''https://auth.example.com''),
                  (''uri'', JStr ''https://dest.example.com'')])]"
      "[(''clientid'', JStr ''user''), (''clientsecret'', JStr ''pass''),
                  (''url'', JStr ''https://auth.example.com''),
                  (''uri'', JStr ''https://dest.example.com'')]"
      "''https://dest.example.com''" _ "''d1''" "JStr ''tok123''", OF _ _ _ refl]
  by (auto simp: example_env_def example_service_def example_network_def example_parse_def
      token_body_def destination_body_def)

section \<open>The payload\<close>

text \<open>
  Claim C9. For the method \<^verbatim>\<open>GET\<close>, and any other method string that is not \<^verbatim>\<open>POST\<close>,
  \<^verbatim>\<open>PUT\<close> or \<^verbatim>\<open>PATCH\<close>, the options built by \<^verbatim>\<open>callDestination\<close> carry neither a payload
  nor a form, whatever payload the caller gave. This holds on every module object whose
  properties \<^verbatim>\<open>POST\<close>, \<^verbatim>\<open>PUT\<close> and \<^verbatim>\<open>PATCH\<close> are each \<^verbatim>\<open>undefined\<close> or the name itself.
\<close>

theorem C9_payload_not_attached:
  assumes "\<forall>k \<in> {''POST'', ''PUT'', ''PATCH''}.
             module_prop E k = None \<or> module_prop E k = Some k"
    and "p_httpMethod oParameters = Some m"
    and "m \<notin> {''POST'', ''PUT'', ''PATCH''}"
    and "callDestination_options E oParameters = Inr oOptions"
  shows "r_payload oOptions = None \<and> r_form oOptions = None"
proof -
  from assms(1-3) have "\<not> isPostPutPatch E (p_httpMethod oParameters)"
    by (auto simp: isPostPutPatch_def)
  with assms(4) show ?thesis
    by (auto simp: callDestination_options_def Let_def bind_sum_Inr)
qed

theorem C9_get_witness:
  "truthy (p_payload (example_parameters ''GET''))
   \<and> callDestination_options example_module (example_parameters ''GET'') =
     Inr \<lparr> r_url = ''https://api.example.com/v1/items'', r_method = Some ''GET'',
           r_headers = Some [(''Authorization'', ''Bearer abc'')], r_form = None,
           r_payload = None \<rparr>"
proof -
  have "\<exists>ro. callDestination_options example_module (example_parameters ''GET'') = Inr ro
       \<and> r_url ro = ''https://api.example.com/v1/items'' \<and> r_method ro = Some ''GET''
       \<and> r_headers ro = Some [(''Authorization'', ''Bearer abc'')]"
    by (simp add: callDestination_options_def example_parameters_def example_destination_def)
  then obtain ro
    where ro: "callDestination_options example_module (example_parameters ''GET'') = Inr ro"
      and f: "r_url ro = ''https://api.example.com/v1/items''" "r_method ro = Some ''GET''"
        "r_headers ro = Some [(''Authorization'', ''Bearer abc'')]"
    by blast
  have "r_payload ro = None \<and> r_form ro = None"
    using C9_payload_not_attached [of example_module "example_parameters ''GET''" "''GET''" ro] ro
    by (simp add: module_prop_def example_module_def example_parameters_def)
  with f have "ro = \<lparr> r_url = ''https://api.example.com/v1/items'', r_method = Some ''GET'',
      r_headers = Some [(''Authorization'', ''Bearer abc'')], r_form = None,
      r_payload = None \<rparr>"
    by (cases ro) simp
  with ro show ?thesis by (simp add: example_parameters_def)
qed

section \<open>A body that does not parse\<close>

text \<open>
  Claim C10. When the token endpoint or the destination endpoint answers 200 with a body
  on which \<^verbatim>\<open>JSON.parse\<close> throws, the \<^verbatim>\<open>SyntaxError\<close> leaves the callback uncaught and
  the promise of \<^verbatim>\<open>getToken\<close>, or of \<^verbatim>\<open>getDestination\<close>, never settles.
\<close>

theorem C10_unparseable_never_settles:
  assumes "request env oOptions = Response 200 data"
    and "JSON_parse env data = None"
  shows "(getToken_options (getService env sDestinationInstance) = Inr oOptions \<longrightarrow>
            getToken env sDestinationInstance =
              ([GetService sDestinationInstance, Request oOptions], NeverSettles SyntaxError))
       \<and> (getDestination_options (getService env sDestinationInstance) sToken
              sDestinationName = Inr oOptions \<longrightarrow>
            getDestination env sToken sDestinationInstance sDestinationName =
              ([GetService sDestinationInstance, Request oOptions], NeverSettles SyntaxError))"
  using assms by (simp add: getToken_def getDestination_def)

theorem C10_html_witness:
  "JSON_parse html_env ''<html></html>'' = None
   \<and> getToken html_env ''inst'' =
     ([GetService ''inst'',
       Request \<lparr> r_url = ''https://auth.example.com/oauth/token'', r_method = Some ''POST'',
           r_headers = Some [(''Authorization'', ''Basic dXNlcjpwYXNz''),
                             (''Content-type'', ''application/x-www-form-urlencoded'')],
           r_form = Some [(''client_id'', JStr ''user''),
                          (''grant_type'', JStr ''client_credentials'')],
           r_payload = None \<rparr>],
      NeverSettles SyntaxError)"
proof -
  have resp: "request html_env oOptions = Response 200 ''<html></html>''" for oOptions
    by (simp add: html_env_def)
  have parse: "JSON_parse html_env ''<html></html>'' = None"
    by (simp add: html_env_def example_env_def example_parse_def token_body_def
        destination_body_def)
  have svc: "getService html_env = getService example_env"
    by (simp add: html_env_def)
  from C10_unparseable_never_settles [OF resp parse, where sDestinationInstance = "''inst''"]
  show ?thesis
    by (simp add: parse svc example_token_options)
qed

section \<open>The whole chain\<close>

text \<open>One run of \<^verbatim>\<open>doItNow\<close> on the example: the service is looked up by \<^verbatim>\<open>getToken\<close> and
  again by \<^verbatim>\<open>getDestination\<close>, three requests are sent in order, and the answer 500 of the
  destination is the result.\<close>

lemma doItNow_example_run:
  "doItNow example_env
     \<lparr> o_url = Some ''/v1/items'', o_destinationInstance = Some ''inst'',
       o_destinationName = Some ''d1'', o_httpMethod = Some ''GET'',
       o_payload = JUndefined \<rparr> =
   ([GetService ''inst'',
     Request \<lparr> r_url = ''https://auth.example.com/oauth/token'', r_method = Some ''POST'',
         r_headers = Some [(''Authorization'', ''Basic dXNlcjpwYXNz''),
                           (''Content-type'', ''application/x-www-form-urlencoded'')],
         r_form = Some [(''client_id'', JStr ''user''),
                        (''grant_type'', JStr ''client_credentials'')],
         r_payload = None \<rparr>,
     GetService ''inst'',
     Request \<lparr> r_url = ''https://dest.example.com/destination-configuration/v1/destinations/d1'',
         r_method = None,
         r_headers = Some [(''Authorization'', ''Bearer tok123'')],
         r_form = None, r_payload = None \<rparr>,
     Request \<lparr> r_url = ''https://api.example.com/v1/items'', r_method = Some ''GET'',
         r_headers = Some [(''Authorization'', ''Bearer abc'')], r_form = None,
         r_payload = None \<rparr>],
    Resolved ''Internal Server Error'')"
  by (simp add: doItNow_def hasOwnProperty_def getToken_def getToken_options_def
      getDestination_def getDestination_options_def callDestination_def
      callDestination_options_def isPostPutPatch_def module_prop_def base64_def b64_char_def
      example_env_def example_module_def example_enum_def example_service_def
      example_destination_def example_network_def example_parse_def token_body_def
      destination_body_def)

end
